theory Spec2Isabelle
  imports Main "HOL-Library.Word" "HOL-Library.Signed_Division"
begin

section \<open>The abstract syntax tree (src/ast/ast.h)\<close>

text \<open>
  The C++ class hierarchy under \<open>ASTNode\<close> becomes one datatype per category. Every
  expression node carries the source line that its constructor receives. A C++ \<open>int\<close>
  is a 32-bit word; a C++ \<open>float\<close> is kept as its IEEE-754 binary32 bit pattern, and
  the arithmetic of the floating-point unit is a parameter of the development
  (record \<open>fpu\<close>), since no claim depends on rounding.
\<close>

type_synonym int32 = "32 word"
type_synonym f32 = "32 word"

datatype BinaryOperator = ADD | SUB | MUL | DIV | MOD | LT | GT | LE | GE | EQ | NE | AND | OR

datatype UnaryOperator = PLUS | MINUS | NOT

datatype ExprAST =
    IntConstExprAST int32 int
  | FloatConstExprAST f32 int
  | LValExprAST string "ExprAST list" int
  | BinaryExprAST BinaryOperator ExprAST ExprAST int
  | UnaryExprAST UnaryOperator ExprAST int
  | CallExprAST string "ExprAST list" int
  | StringLiteralExprAST string int

datatype Kind = Kind_INT | Kind_FLOAT | Kind_VOID | Kind_VECTOR

text \<open>\<open>TypeAST kind vectorElementKind vectorSizeExpr\<close>.\<close>

datatype TypeAST = TypeAST Kind Kind "ExprAST option"

datatype InitValAST =
    ExprInitValAST ExprAST
  | ListInitValAST "InitValAST list"

text \<open>\<open>VarDefAST name arraySizes initVal\<close>, and the same fields for \<open>ConstDefAST\<close>.\<close>

datatype VarDefAST = VarDefAST string "ExprAST list" "InitValAST option"

datatype ConstDefAST = ConstDefAST string "ExprAST list" "InitValAST option"

datatype DeclAST =
    VarDeclAST TypeAST "VarDefAST list"
  | ConstDeclAST TypeAST "ConstDefAST list"

text \<open>
  The left-hand side of an assignment is an \<open>LValExprAST\<close> node: its name, its index
  expressions and its line.
\<close>

datatype StmtAST =
    AssignStmtAST string "ExprAST list" int ExprAST
  | ExprStmtAST "ExprAST option"
  | ReturnStmtAST "ExprAST option"
  | IfStmtAST ExprAST StmtAST "StmtAST option"
  | WhileStmtAST ExprAST StmtAST
  | BreakStmtAST
  | ContinueStmtAST
  | BlockAST "BlockItemAST list"
and BlockItemAST =
    DeclBlockItemAST DeclAST
  | StmtBlockItemAST StmtAST

text \<open>\<open>FuncFParamAST type name isArray arraySizes\<close>.\<close>

datatype FuncFParamAST = FuncFParamAST TypeAST string bool "ExprAST list"

text \<open>\<open>FunctionAST returnType name params body\<close>; the body is the item list of a \<open>BlockAST\<close>.\<close>

datatype FunctionAST = FunctionAST TypeAST string "FuncFParamAST list" "BlockItemAST list"

datatype CompUnitAST = CompUnitAST "DeclAST list" "FunctionAST list"


section \<open>The constant folder (src/ast/constant\_folding.h)\<close>

record fpu =
  fp_add :: "f32 \<Rightarrow> f32 \<Rightarrow> f32"
  fp_sub :: "f32 \<Rightarrow> f32 \<Rightarrow> f32"
  fp_mul :: "f32 \<Rightarrow> f32 \<Rightarrow> f32"
  fp_div :: "f32 \<Rightarrow> f32 \<Rightarrow> f32"
  fp_neg :: "f32 \<Rightarrow> f32"
  fp_lt :: "f32 \<Rightarrow> f32 \<Rightarrow> bool"
  fp_le :: "f32 \<Rightarrow> f32 \<Rightarrow> bool"
  fp_eq :: "f32 \<Rightarrow> f32 \<Rightarrow> bool"

text \<open>The bit patterns of the literals \<open>0.0f\<close> and \<open>1.0f\<close>.\<close>

definition f32_zero :: f32 where
  "f32_zero = 0"

definition f32_one :: f32 where
  "f32_one = 0x3F800000"

text \<open>
  Signed comparison and the truncating division and remainder of C++ on 32-bit words.
  Signed overflow is undefined behaviour in C++; the model takes the two's-complement
  wrap-around of the machine, also for \<open>INT_MIN / -1\<close>.
\<close>

definition slt32 :: "int32 \<Rightarrow> int32 \<Rightarrow> bool" where
  "slt32 a b \<longleftrightarrow> sint a < sint b"

definition sle32 :: "int32 \<Rightarrow> int32 \<Rightarrow> bool" where
  "sle32 a b \<longleftrightarrow> sint a \<le> sint b"

definition sdiv32 :: "int32 \<Rightarrow> int32 \<Rightarrow> int32" where
  "sdiv32 a b = word_of_int (sint a sdiv sint b)"

definition smod32 :: "int32 \<Rightarrow> int32 \<Rightarrow> int32" where
  "smod32 a b = word_of_int (sint a smod sint b)"

definition bool32 :: "bool \<Rightarrow> int32" where
  "bool32 c = (if c then 1 else 0)"

definition boolf :: "bool \<Rightarrow> f32" where
  "boolf c = (if c then f32_one else f32_zero)"

text \<open>\<open>int evaluateBinaryOp(Operator, int, int)\<close>.\<close>

fun evaluateBinaryOp :: "BinaryOperator \<Rightarrow> int32 \<Rightarrow> int32 \<Rightarrow> int32" where
  "evaluateBinaryOp ADD lhs rhs = lhs + rhs"
| "evaluateBinaryOp SUB lhs rhs = lhs - rhs"
| "evaluateBinaryOp MUL lhs rhs = lhs * rhs"
| "evaluateBinaryOp DIV lhs rhs = (if rhs \<noteq> 0 then sdiv32 lhs rhs else 0)"
| "evaluateBinaryOp MOD lhs rhs = (if rhs \<noteq> 0 then smod32 lhs rhs else 0)"
| "evaluateBinaryOp LT lhs rhs = bool32 (slt32 lhs rhs)"
| "evaluateBinaryOp GT lhs rhs = bool32 (slt32 rhs lhs)"
| "evaluateBinaryOp LE lhs rhs = bool32 (sle32 lhs rhs)"
| "evaluateBinaryOp GE lhs rhs = bool32 (sle32 rhs lhs)"
| "evaluateBinaryOp EQ lhs rhs = bool32 (lhs = rhs)"
| "evaluateBinaryOp NE lhs rhs = bool32 (lhs \<noteq> rhs)"
| "evaluateBinaryOp AND lhs rhs = bool32 (lhs \<noteq> 0 \<and> rhs \<noteq> 0)"
| "evaluateBinaryOp OR lhs rhs = bool32 (lhs \<noteq> 0 \<or> rhs \<noteq> 0)"

text \<open>
  \<open>float evaluateBinaryOp(Operator, float, float)\<close>. A float used as a truth value is
  true when it compares unequal to zero.
\<close>

fun evaluateBinaryOpF :: "fpu \<Rightarrow> BinaryOperator \<Rightarrow> f32 \<Rightarrow> f32 \<Rightarrow> f32" where
  "evaluateBinaryOpF F ADD lhs rhs = fp_add F lhs rhs"
| "evaluateBinaryOpF F SUB lhs rhs = fp_sub F lhs rhs"
| "evaluateBinaryOpF F MUL lhs rhs = fp_mul F lhs rhs"
| "evaluateBinaryOpF F DIV lhs rhs =
     (if \<not> fp_eq F rhs f32_zero then fp_div F lhs rhs else f32_zero)"
| "evaluateBinaryOpF F MOD lhs rhs = f32_zero"
| "evaluateBinaryOpF F LT lhs rhs = boolf (fp_lt F lhs rhs)"
| "evaluateBinaryOpF F GT lhs rhs = boolf (fp_lt F rhs lhs)"
| "evaluateBinaryOpF F LE lhs rhs = boolf (fp_le F lhs rhs)"
| "evaluateBinaryOpF F GE lhs rhs = boolf (fp_le F rhs lhs)"
| "evaluateBinaryOpF F EQ lhs rhs = boolf (fp_eq F lhs rhs)"
| "evaluateBinaryOpF F NE lhs rhs = boolf (\<not> fp_eq F lhs rhs)"
| "evaluateBinaryOpF F AND lhs rhs =
     boolf (\<not> fp_eq F lhs f32_zero \<and> \<not> fp_eq F rhs f32_zero)"
| "evaluateBinaryOpF F OR lhs rhs =
     boolf (\<not> fp_eq F lhs f32_zero \<or> \<not> fp_eq F rhs f32_zero)"

fun evaluateUnaryOp :: "UnaryOperator \<Rightarrow> int32 \<Rightarrow> int32" where
  "evaluateUnaryOp PLUS operand = operand"
| "evaluateUnaryOp MINUS operand = - operand"
| "evaluateUnaryOp NOT operand = bool32 (operand = 0)"

fun evaluateUnaryOpF :: "fpu \<Rightarrow> UnaryOperator \<Rightarrow> f32 \<Rightarrow> f32" where
  "evaluateUnaryOpF F PLUS operand = operand"
| "evaluateUnaryOpF F MINUS operand = fp_neg F operand"
| "evaluateUnaryOpF F NOT operand = boolf (fp_eq F operand f32_zero)"

text \<open>
  \<open>foldAndReplaceExpr\<close> builds a new tree. A literal answers \<open>isConstant()\<close> and is
  cloned; a string literal reaches the final \<open>clone()\<close>. A clone is an equal tree.
\<close>

fun foldAndReplaceExpr :: "fpu \<Rightarrow> ExprAST \<Rightarrow> ExprAST" where
  "foldAndReplaceExpr F (IntConstExprAST v ln) = IntConstExprAST v ln"
| "foldAndReplaceExpr F (FloatConstExprAST v ln) = FloatConstExprAST v ln"
| "foldAndReplaceExpr F (BinaryExprAST opr l r ln) =
     (let lhs = foldAndReplaceExpr F l; rhs = foldAndReplaceExpr F r in
      case (lhs, rhs) of
        (IntConstExprAST a _, IntConstExprAST b _) \<Rightarrow>
          IntConstExprAST (evaluateBinaryOp opr a b) ln
      | (FloatConstExprAST a _, FloatConstExprAST b _) \<Rightarrow>
          FloatConstExprAST (evaluateBinaryOpF F opr a b) ln
      | _ \<Rightarrow> BinaryExprAST opr lhs rhs ln)"
| "foldAndReplaceExpr F (UnaryExprAST opr e ln) =
     (let operand = foldAndReplaceExpr F e in
      case operand of
        IntConstExprAST a _ \<Rightarrow> IntConstExprAST (evaluateUnaryOp opr a) ln
      | FloatConstExprAST a _ \<Rightarrow> FloatConstExprAST (evaluateUnaryOpF F opr a) ln
      | _ \<Rightarrow> UnaryExprAST opr operand ln)"
| "foldAndReplaceExpr F (CallExprAST callee args ln) =
     CallExprAST callee (map (foldAndReplaceExpr F) args) ln"
| "foldAndReplaceExpr F (LValExprAST name indices ln) =
     LValExprAST name (map (foldAndReplaceExpr F) indices) ln"
| "foldAndReplaceExpr F (StringLiteralExprAST s ln) = StringLiteralExprAST s ln"

text \<open>
  The callers decide whether anything changed with the pointer comparison
  \<open>foldedExpr.get() != node->getExpr()\<close>. On every path \<open>foldAndReplaceExpr\<close> returns
  a node that it has just allocated (\<open>clone()\<close> or \<open>make_unique\<close>), while the node it
  was given is still owned by the statement: two live objects, so the two addresses
  differ whatever the trees hold. \<open>ptr_ne folded original\<close> is that comparison.
\<close>

definition ptr_ne :: "ExprAST \<Rightarrow> ExprAST \<Rightarrow> bool" where
  "ptr_ne folded original = True"

text \<open>
  Each fold function returns the flag \<open>changed\<close> and the node after the in-place
  update. \<open>replaceExpr\<close> is the pattern shared by all callers: fold, compare the
  pointers, and store the new tree when they differ.
\<close>

definition replaceExpr :: "fpu \<Rightarrow> ExprAST \<Rightarrow> bool \<times> ExprAST" where
  "replaceExpr F e =
     (let foldedExpr = foldAndReplaceExpr F e in
      if ptr_ne foldedExpr e then (True, foldedExpr) else (False, e))"

fun foldInitVal :: "fpu \<Rightarrow> InitValAST \<Rightarrow> bool \<times> InitValAST" where
  "foldInitVal F (ExprInitValAST e) =
     (let (changed, e') = replaceExpr F e in (changed, ExprInitValAST e'))"
| "foldInitVal F (ListInitValAST initVals) =
     (let rs = map (foldInitVal F) initVals in
      (list_ex fst rs, ListInitValAST (map snd rs)))"

fun foldOptInitVal :: "fpu \<Rightarrow> InitValAST option \<Rightarrow> bool \<times> InitValAST option" where
  "foldOptInitVal F None = (False, None)"
| "foldOptInitVal F (Some iv) = (let (changed, iv') = foldInitVal F iv in (changed, Some iv'))"

fun foldVarDef :: "fpu \<Rightarrow> VarDefAST \<Rightarrow> bool \<times> VarDefAST" where
  "foldVarDef F (VarDefAST name arraySizes initVal) =
     (let (changed, initVal') = foldOptInitVal F initVal in
      (changed, VarDefAST name arraySizes initVal'))"

fun foldConstDef :: "fpu \<Rightarrow> ConstDefAST \<Rightarrow> bool \<times> ConstDefAST" where
  "foldConstDef F (ConstDefAST name arraySizes initVal) =
     (let (changed, initVal') = foldOptInitVal F initVal in
      (changed, ConstDefAST name arraySizes initVal'))"

fun foldDecl :: "fpu \<Rightarrow> DeclAST \<Rightarrow> bool \<times> DeclAST" where
  "foldDecl F (VarDeclAST ty varDefs) =
     (let rs = map (foldVarDef F) varDefs in
      (list_ex fst rs, VarDeclAST ty (map snd rs)))"
| "foldDecl F (ConstDeclAST ty constDefs) =
     (let rs = map (foldConstDef F) constDefs in
      (list_ex fst rs, ConstDeclAST ty (map snd rs)))"

fun isIntConst :: "ExprAST \<Rightarrow> bool" where
  "isIntConst (IntConstExprAST _ _) = True"
| "isIntConst _ = False"

fun foldOptExpr :: "fpu \<Rightarrow> ExprAST option \<Rightarrow> bool \<times> ExprAST option" where
  "foldOptExpr F None = (False, None)"
| "foldOptExpr F (Some e) = (let (changed, e') = replaceExpr F e in (changed, Some e'))"

fun foldStmt :: "fpu \<Rightarrow> StmtAST \<Rightarrow> bool \<times> StmtAST"
  and foldBlockItem :: "fpu \<Rightarrow> BlockItemAST \<Rightarrow> bool \<times> BlockItemAST" where
  "foldStmt F (AssignStmtAST name indices ln e) =
     (let (changed, e') = replaceExpr F e in (changed, AssignStmtAST name indices ln e'))"
| "foldStmt F (IfStmtAST c thenStmt elseStmt) =
     (let (changed, c') = replaceExpr F c;
          (changedThen, thenStmt') = foldStmt F thenStmt;
          (changedElse, elseStmt') =
             (case elseStmt of
                None \<Rightarrow> (False, None)
              | Some s \<Rightarrow> (let (ch, s') = foldStmt F s in (ch, Some s')))
      in ((changed \<or> changedThen \<or> changedElse) \<or> isIntConst c',
          IfStmtAST c' thenStmt' elseStmt'))"
| "foldStmt F (WhileStmtAST c body) =
     (let (changed, c') = replaceExpr F c;
          (changedBody, body') = foldStmt F body
      in (changed \<or> changedBody, WhileStmtAST c' body'))"
| "foldStmt F (BlockAST items) =
     (let rs = map (foldBlockItem F) items in
      (list_ex fst rs, BlockAST (map snd rs)))"
| "foldStmt F (ExprStmtAST e) =
     (let (changed, e') = foldOptExpr F e in (changed, ExprStmtAST e'))"
| "foldStmt F (ReturnStmtAST e) =
     (let (changed, e') = foldOptExpr F e in (changed, ReturnStmtAST e'))"
| "foldStmt F BreakStmtAST = (False, BreakStmtAST)"
| "foldStmt F ContinueStmtAST = (False, ContinueStmtAST)"
| "foldBlockItem F (StmtBlockItemAST s) =
     (let (changed, s') = foldStmt F s in (changed, StmtBlockItemAST s'))"
| "foldBlockItem F (DeclBlockItemAST d) =
     (let (changed, d') = foldDecl F d in (changed, DeclBlockItemAST d'))"

definition foldBlock :: "fpu \<Rightarrow> BlockItemAST list \<Rightarrow> bool \<times> BlockItemAST list" where
  "foldBlock F items =
     (let rs = map (foldBlockItem F) items in (list_ex fst rs, map snd rs))"

fun foldFunction :: "fpu \<Rightarrow> FunctionAST \<Rightarrow> bool \<times> FunctionAST" where
  "foldFunction F (FunctionAST retTy name params body) =
     (let (changed, body') = foldBlock F body in
      (changed, FunctionAST retTy name params body'))"

fun foldCompUnit :: "fpu \<Rightarrow> CompUnitAST \<Rightarrow> bool \<times> CompUnitAST" where
  "foldCompUnit F (CompUnitAST decls functions) =
     (let ds = map (foldDecl F) decls;
          fs = map (foldFunction F) functions
      in (list_ex fst ds \<or> list_ex fst fs, CompUnitAST (map snd ds) (map snd fs)))"


section \<open>The optimisation driver (src/ast/ast\_optimizer.h)\<close>




section \<open>The LLVM objects the generator builds (src/codegen/ir\_generator.cpp)\<close>

text \<open>
  The generator calls LLVM's \<open>IRBuilder\<close>. What it builds is kept symbolically: a
  type, a value (a constant, a global variable, an argument or the result of an
  instruction, each with the type \<open>getType()\<close> answers), and the list of the
  instructions appended so far, each with the basic block it was inserted into.
  A pointer type remembers its pointee.
\<close>

datatype llvm_type =
    VoidTy
  | IntegerTy nat
  | FloatTy
  | DoubleTy
  | PointerTy llvm_type
  | ArrayTy llvm_type nat
  | VectorTy llvm_type nat

fun isIntegerTy :: "llvm_type \<Rightarrow> bool" where
  "isIntegerTy (IntegerTy _) = True"
| "isIntegerTy _ = False"

fun isFloatTy :: "llvm_type \<Rightarrow> bool" where
  "isFloatTy FloatTy = True"
| "isFloatTy _ = False"

fun isFloatingPointTy :: "llvm_type \<Rightarrow> bool" where
  "isFloatingPointTy FloatTy = True"
| "isFloatingPointTy DoubleTy = True"
| "isFloatingPointTy _ = False"

fun isVectorTy :: "llvm_type \<Rightarrow> bool" where
  "isVectorTy (VectorTy _ _) = True"
| "isVectorTy _ = False"

fun isPointerTy :: "llvm_type \<Rightarrow> bool" where
  "isPointerTy (PointerTy _) = True"
| "isPointerTy _ = False"

fun isArrayTy :: "llvm_type \<Rightarrow> bool" where
  "isArrayTy (ArrayTy _ _) = True"
| "isArrayTy _ = False"

text \<open>
  \<open>getElementType()\<close> of an array or vector type. The generator calls it only on
  types it has built as arrays or vectors; elsewhere the model returns the type itself.
\<close>

fun getElementType :: "llvm_type \<Rightarrow> llvm_type" where
  "getElementType (ArrayTy t _) = t"
| "getElementType (VectorTy t _) = t"
| "getElementType t = t"

text \<open>The loop \<open>while (isa<ArrayType>(t)) t = t->getElementType()\<close>.\<close>

fun stripArrayTy :: "llvm_type \<Rightarrow> llvm_type" where
  "stripArrayTy (ArrayTy t _) = stripArrayTy t"
| "stripArrayTy t = t"

text \<open>
  Values. \<open>ConstantArray ty elems\<close> is the constant array with these elements,
  whichever class LLVM chooses to represent it. \<open>ConstantExpr opc args ty\<close> is the
  constant that the builder's constant folder returns for the operation \<open>opc\<close> on
  constant operands, its value left uncomputed. \<open>GlobalVariable name valueType
  isConstant initializer\<close> is a module-level variable as it stands once its
  declaration has been processed. The result of an instruction carries the number of
  the instruction; \<open>alloca\<close>, \<open>load\<close> and \<open>getelementptr\<close> results are told apart
  because the generator asks for them with \<open>dyn_cast\<close>.
\<close>

datatype llvm_value =
    ConstantInt llvm_type int
  | ConstantFP llvm_type f32
  | ConstantAggregateZero llvm_type
  | ConstantPointerNull llvm_type
  | ConstantArray llvm_type "llvm_value list"
  | ConstantVector llvm_type "llvm_value list"
  | ConstantExpr string "llvm_value list" llvm_type
  | UndefValue llvm_type
  | GlobalVariable string llvm_type bool "llvm_value option"
  | Argument nat llvm_type
  | AllocaInst nat llvm_type
  | LoadInst nat llvm_type
  | GetElementPtrInst nat llvm_type
  | Instruction nat llvm_type

fun getType :: "llvm_value \<Rightarrow> llvm_type" where
  "getType (ConstantInt ty _) = ty"
| "getType (ConstantFP ty _) = ty"
| "getType (ConstantAggregateZero ty) = ty"
| "getType (ConstantPointerNull ty) = ty"
| "getType (ConstantArray ty _) = ty"
| "getType (ConstantVector ty _) = ty"
| "getType (ConstantExpr _ _ ty) = ty"
| "getType (UndefValue ty) = ty"
| "getType (GlobalVariable _ ty _ _) = PointerTy ty"
| "getType (Argument _ ty) = ty"
| "getType (AllocaInst _ ty) = PointerTy ty"
| "getType (LoadInst _ ty) = ty"
| "getType (GetElementPtrInst _ ty) = PointerTy ty"
| "getType (Instruction _ ty) = ty"

text \<open>\<open>isa<llvm::Constant>\<close>: constants, undef and global variables.\<close>

fun isConstant :: "llvm_value \<Rightarrow> bool" where
  "isConstant (Argument _ _) = False"
| "isConstant (AllocaInst _ _) = False"
| "isConstant (LoadInst _ _) = False"
| "isConstant (GetElementPtrInst _ _) = False"
| "isConstant (Instruction _ _) = False"
| "isConstant _ = True"

fun isGlobalVariable :: "llvm_value \<Rightarrow> bool" where
  "isGlobalVariable (GlobalVariable _ _ _ _) = True"
| "isGlobalVariable _ = False"

text \<open>\<open>Constant::getNullValue\<close>.\<close>

fun getNullValue :: "llvm_type \<Rightarrow> llvm_value" where
  "getNullValue (IntegerTy n) = ConstantInt (IntegerTy n) 0"
| "getNullValue FloatTy = ConstantFP FloatTy f32_zero"
| "getNullValue DoubleTy = ConstantFP DoubleTy f32_zero"
| "getNullValue (PointerTy t) = ConstantPointerNull (PointerTy t)"
| "getNullValue t = ConstantAggregateZero t"

text \<open>Errors: each \<open>std::runtime_error\<close> the generator throws, and a rejection by LLVM.\<close>

datatype error =
    ExpressionIsNull
  | ArraySizeNonNegative
  | VariableNotDefined string
  | ArraySizeMustBeConstant
  | ArraySizeConstantWithValue
  | ArraySizeIntegerConstant
  | DivisionByZeroInConstExpr
  | ModuloByZeroInConstExpr
  | UnsupportedOperatorInConstExpr
  | UnsupportedUnaryOperatorInConstExpr
  | ArraySizeConstIntegerExpression
  | ArraySizeConstantExpression
  | CannotAddSymbolNoScope
  | RedeclarationOfSymbol string
  | RedeclarationOfGlobalConstant string
  | ConstantMustHaveInitializer string
  | VectorTypeMissingSize
  | VectorSizeMustBePositive
  | UnsupportedVectorElementType
  | VectorWithArrayDimensions
  | UnableToDeterminePointerElementType
  | VectorInitializerMustBeVector
  | GlobalVectorInitializerMustBeConstant
  | VectorInitializerTooManyElements
  | VectorInitializerElementsMustBeExpressions
  | TypeMismatchInVectorInitializer
  | GlobalInitializerMustBeConstant
  | TypeMismatchInGlobalInitializer
  | TypeMismatchInVariableInitializer
  | TypeMismatchInArrayInitializer
  | ScalarInitializerCannotBeList
  | ArrayParameterNotPreloaded
  | ArrayIndexCountExceedsDimensions
  | VectorIndexMustBeOneDimensional
  | VectorIndexMustBeInteger
  | UnableToDetermineVariableType
  | UnableToDetermineLoadType
  | CannotAssignToConstant string
  | CannotAssignToArrayName string
  | TypeMismatchInVectorElementAssignment
  | InsertPointMoved
  | RedeclarationOfFunction string
  | ArrayDimensionMustBePositive
  | LoadedArrayPtrFromAnotherFunction string
  | NullPointerDereference
  | LLVMInvalidOperand string
  | NotInFragment

datatype instr =
    Alloca nat llvm_type
  | Store llvm_value llvm_value
  | Load nat llvm_type llvm_value
  | GetElementPtr nat llvm_type llvm_value "llvm_value list"
  | ICmpNE nat llvm_value llvm_value
  | Cast nat string llvm_value llvm_type
  | ExtractElement nat llvm_value llvm_value
  | InsertElement nat llvm_value llvm_value llvm_value
  | Br "string \<times> nat"
  | CondBr llvm_value "string \<times> nat" "string \<times> nat"
  | Ret "llvm_value option"

text \<open>
  The symbol table entry, \<open>struct SymbolInfo\<close>. A null pointer is \<open>None\<close>.
\<close>

record SymbolInfo =
  symValue :: llvm_value
  isConst :: bool
  isArray :: bool
  arrayElementType :: "llvm_type option"
  loadedArrayPtr :: "llvm_value option"

text \<open>
  The state of the generator: the scope stack (innermost scope first), the builder's
  insertion block and the instructions appended so far, the counter that numbers
  instructions, blocks and functions, the function being generated
  (\<open>currentFunction\<close>, \<open>None\<close> for the null pointer), the function each basic block
  has been put into, and the two stacks of loop targets (innermost first). A basic
  block is its name and its number.
\<close>

type_synonym block = "string \<times> nat"

record gen_state =
  symbolTableStack :: "(string \<rightharpoonup> SymbolInfo) list"
  insertBlock :: "block option"
  code :: "(block option \<times> instr) list"
  nextId :: nat
  currentFunction :: "nat option"
  blockParent :: "block \<rightharpoonup> nat"
  breakTargets :: "block list"
  continueTargets :: "block list"

type_synonym 'a gen = "gen_state \<Rightarrow> error + ('a \<times> gen_state)"


fun lookupScopes :: "(string \<rightharpoonup> SymbolInfo) list \<Rightarrow> string \<Rightarrow> SymbolInfo option" where
  "lookupScopes [] name = None"
| "lookupScopes (scope # outer) name =
     (case scope name of Some info \<Rightarrow> Some info | None \<Rightarrow> lookupScopes outer name)"

definition lookupSymbol :: "gen_state \<Rightarrow> string \<Rightarrow> SymbolInfo option" where
  "lookupSymbol st name = lookupScopes (symbolTableStack st) name"

definition addSymbol :: "string \<Rightarrow> SymbolInfo \<Rightarrow> gen_state \<Rightarrow> error + gen_state" where
  "addSymbol name info st =
     (case symbolTableStack st of
        [] \<Rightarrow> Inl CannotAddSymbolNoScope
      | currentScope # outer \<Rightarrow>
          if currentScope name \<noteq> None then Inl (RedeclarationOfSymbol name)
          else Inr (st \<lparr> symbolTableStack := currentScope(name \<mapsto> info) # outer \<rparr>))"

text \<open>The constructor \<open>SymbolInfo(v, c, a, elemType)\<close>: no preloaded pointer.\<close>

definition mkSymbolInfo :: "llvm_value \<Rightarrow> bool \<Rightarrow> bool \<Rightarrow> llvm_type option \<Rightarrow> SymbolInfo" where
  "mkSymbolInfo v c a elemType =
     \<lparr> symValue = v, isConst = c, isArray = a, arrayElementType = elemType,
       loadedArrayPtr = None \<rparr>"

subsection \<open>The builder\<close>

text \<open>
  An instruction is appended to the insertion block and takes the next number. Where
  all operands are constants the builder's folder returns a constant and appends
  nothing. \<open>ConstantInt::get\<close> needs an integer type and an integer comparison needs
  integer or pointer operands: LLVM rejects anything else (an assertion, or the
  verifier on the function), which the model reports as \<open>LLVMInvalidOperand\<close>.
\<close>

definition emit :: "instr \<Rightarrow> gen_state \<Rightarrow> gen_state" where
  "emit i st = st \<lparr> code := code st @ [(insertBlock st, i)], nextId := nextId st + 1 \<rparr>"

definition CreateAlloca :: "llvm_type \<Rightarrow> gen_state \<Rightarrow> llvm_value \<times> gen_state" where
  "CreateAlloca ty st = (AllocaInst (nextId st) ty, emit (Alloca (nextId st) ty) st)"

definition CreateStore :: "llvm_value \<Rightarrow> llvm_value \<Rightarrow> gen_state \<Rightarrow> gen_state" where
  "CreateStore v ptr st = emit (Store v ptr) st"

definition CreateLoad :: "llvm_type \<Rightarrow> llvm_value \<Rightarrow> gen_state \<Rightarrow> llvm_value \<times> gen_state" where
  "CreateLoad ty ptr st = (LoadInst (nextId st) ty, emit (Load (nextId st) ty ptr) st)"

text \<open>
  The element type a \<open>getelementptr\<close> over \<open>ty\<close> reaches: the first index steps over
  \<open>ty\<close> itself, each further index enters an array or vector.
\<close>

fun indexedType :: "llvm_type \<Rightarrow> nat \<Rightarrow> llvm_type" where
  "indexedType ty 0 = ty"
| "indexedType ty (Suc n) = indexedType (getElementType ty) n"

definition CreateGEP ::
  "llvm_type \<Rightarrow> llvm_value \<Rightarrow> llvm_value list \<Rightarrow> gen_state \<Rightarrow> llvm_value \<times> gen_state" where
  "CreateGEP ty ptr indices st =
     (let resTy = indexedType ty (length indices - 1) in
      if isConstant ptr \<and> list_all isConstant indices
      then (ConstantExpr ''getelementptr'' (ptr # indices) (PointerTy resTy), st)
      else (GetElementPtrInst (nextId st) resTy,
            emit (GetElementPtr (nextId st) ty ptr indices) st))"

definition CreateCast ::
  "string \<Rightarrow> llvm_value \<Rightarrow> llvm_type \<Rightarrow> gen_state \<Rightarrow> llvm_value \<times> gen_state" where
  "CreateCast opc v ty st =
     (if getType v = ty then (v, st)
      else if isConstant v then (ConstantExpr opc [v] ty, st)
      else (Instruction (nextId st) ty, emit (Cast (nextId st) opc v ty) st))"

definition ConstantInt_get :: "llvm_type \<Rightarrow> int \<Rightarrow> error + llvm_value" where
  "ConstantInt_get ty v =
     (if isIntegerTy ty then Inr (ConstantInt ty v)
      else Inl (LLVMInvalidOperand ''ConstantInt::get''))"

definition CreateICmpNE :: "llvm_value \<Rightarrow> llvm_value \<Rightarrow> llvm_value gen" where
  "CreateICmpNE lhs rhs st =
     (if \<not> (isIntegerTy (getType lhs) \<or> isPointerTy (getType lhs)) \<or> getType lhs \<noteq> getType rhs
      then Inl (LLVMInvalidOperand ''icmp'')
      else case (lhs, rhs) of
        (ConstantInt _ a, ConstantInt _ b) \<Rightarrow>
          Inr (ConstantInt (IntegerTy 1) (if a \<noteq> b then 1 else 0), st)
      | _ \<Rightarrow>
          if isConstant lhs \<and> isConstant rhs
          then Inr (ConstantExpr ''icmp ne'' [lhs, rhs] (IntegerTy 1), st)
          else Inr (Instruction (nextId st) (IntegerTy 1), emit (ICmpNE (nextId st) lhs rhs) st))"

definition CreateExtractElement :: "llvm_value \<Rightarrow> llvm_value \<Rightarrow> gen_state \<Rightarrow> llvm_value \<times> gen_state" where
  "CreateExtractElement vec idx st =
     (if isConstant vec \<and> isConstant idx
      then (ConstantExpr ''extractelement'' [vec, idx] (getElementType (getType vec)), st)
      else (Instruction (nextId st) (getElementType (getType vec)),
            emit (ExtractElement (nextId st) vec idx) st))"

definition CreateInsertElement ::
  "llvm_value \<Rightarrow> llvm_value \<Rightarrow> llvm_value \<Rightarrow> gen_state \<Rightarrow> llvm_value \<times> gen_state" where
  "CreateInsertElement vec elt idx st =
     (if isConstant vec \<and> isConstant elt \<and> isConstant idx
      then (ConstantExpr ''insertelement'' [vec, elt, idx] (getType vec), st)
      else (Instruction (nextId st) (getType vec),
            emit (InsertElement (nextId st) vec elt idx) st))"

subsection \<open>The compile-time evaluator\<close>

text \<open>
  \<open>int IRGenerator::evaluateConstExpr(ExprAST*)\<close>. It reads the scope stack and emits
  nothing. \<open>getSExtValue()\<close> of an initializer is returned as an \<open>int\<close>.
\<close>

fun evaluateConstExpr :: "gen_state \<Rightarrow> ExprAST \<Rightarrow> error + int32" where
  "evaluateConstExpr st (IntConstExprAST v ln) =
     (if sint v < 0 then Inl ArraySizeNonNegative else Inr v)"
| "evaluateConstExpr st (LValExprAST varName indices ln) =
     (case lookupSymbol st varName of
        None \<Rightarrow> Inl (VariableNotDefined varName)
      | Some info \<Rightarrow>
          (case symValue info of
             GlobalVariable gname ty isConstantGlobal initValue \<Rightarrow>
               if \<not> isConstantGlobal then Inl ArraySizeMustBeConstant
               else (case initValue of
                  None \<Rightarrow> Inl ArraySizeConstantWithValue
                | Some (ConstantInt ity v) \<Rightarrow>
                    if v < 0 then Inl ArraySizeNonNegative else Inr (word_of_int v)
                | Some _ \<Rightarrow> Inl ArraySizeIntegerConstant)
           | _ \<Rightarrow> Inl ArraySizeMustBeConstant))"
| "evaluateConstExpr st (BinaryExprAST opr l r ln) =
     (case evaluateConstExpr st l of
        Inl e \<Rightarrow> Inl e
      | Inr lhs \<Rightarrow>
          (case evaluateConstExpr st r of
             Inl e \<Rightarrow> Inl e
           | Inr rhs \<Rightarrow>
               (case opr of
                  ADD \<Rightarrow> Inr (lhs + rhs)
                | SUB \<Rightarrow> Inr (lhs - rhs)
                | MUL \<Rightarrow> Inr (lhs * rhs)
                | DIV \<Rightarrow> if rhs = 0 then Inl DivisionByZeroInConstExpr else Inr (sdiv32 lhs rhs)
                | MOD \<Rightarrow> if rhs = 0 then Inl ModuloByZeroInConstExpr else Inr (smod32 lhs rhs)
                | _ \<Rightarrow> Inl UnsupportedOperatorInConstExpr)))"
| "evaluateConstExpr st (UnaryExprAST opr e ln) =
     (case evaluateConstExpr st e of
        Inl err \<Rightarrow> Inl err
      | Inr operand \<Rightarrow>
          (case opr of
             PLUS \<Rightarrow> Inr operand
           | MINUS \<Rightarrow> Inr (- operand)
           | NOT \<Rightarrow> Inl UnsupportedUnaryOperatorInConstExpr))"
| "evaluateConstExpr st (FloatConstExprAST v ln) = Inl ArraySizeConstIntegerExpression"
| "evaluateConstExpr st (CallExprAST callee args ln) = Inl ArraySizeConstIntegerExpression"
| "evaluateConstExpr st (StringLiteralExprAST s ln) = Inl ArraySizeConstIntegerExpression"

text \<open>\<open>llvm::Type* IRGenerator::getType(TypeAST*)\<close>.\<close>

fun getTypeAST :: "gen_state \<Rightarrow> TypeAST \<Rightarrow> error + llvm_type" where
  "getTypeAST st (TypeAST Kind_INT _ _) = Inr (IntegerTy 32)"
| "getTypeAST st (TypeAST Kind_FLOAT _ _) = Inr FloatTy"
| "getTypeAST st (TypeAST Kind_VOID _ _) = Inr VoidTy"
| "getTypeAST st (TypeAST Kind_VECTOR elemKind sizeExpr) =
     (case sizeExpr of
        None \<Rightarrow> Inl VectorTypeMissingSize
      | Some e \<Rightarrow>
          (case evaluateConstExpr st e of
             Inl err \<Rightarrow> Inl err
           | Inr sz \<Rightarrow>
               if sint sz \<le> 0 then Inl VectorSizeMustBePositive
               else (case elemKind of
                  Kind_INT \<Rightarrow> Inr (VectorTy (IntegerTy 32) (unat sz))
                | Kind_FLOAT \<Rightarrow> Inr (VectorTy FloatTy (unat sz))
                | _ \<Rightarrow> Inl UnsupportedVectorElementType)))"


subsection \<open>Initializers\<close>

text \<open>
  The functions below call \<open>generateExpr\<close> on the expressions of an initializer. They
  take it as the parameter \<open>gen\<close>: whatever \<open>generateExpr\<close> returns and appends for an
  expression, the code modelled here does the same with it.
\<close>

text \<open>The pointee type of the initialised cell, asked with three \<open>dyn_cast\<close>s.\<close>

fun pointerElementType :: "llvm_value \<Rightarrow> error + llvm_type" where
  "pointerElementType (AllocaInst _ ty) = Inr ty"
| "pointerElementType (GlobalVariable _ ty _ _) = Inr ty"
| "pointerElementType (GetElementPtrInst _ ty) = Inr ty"
| "pointerElementType _ = Inl UnableToDeterminePointerElementType"

text \<open>\<open>globalVar->setInitializer(c)\<close>; only called on a global variable.\<close>

fun setInitializer :: "llvm_value \<Rightarrow> llvm_value \<Rightarrow> llvm_value" where
  "setInitializer (GlobalVariable name ty c _) v = GlobalVariable name ty c (Some v)"
| "setInitializer p v = p"

text \<open>
  \<open>ConstantArray::get(type, elements)\<close>: the elements must have the element type of
  the array type and be as many as the array is long.
\<close>

fun getNumElements :: "llvm_type \<Rightarrow> nat" where
  "getNumElements (ArrayTy _ n) = n"
| "getNumElements (VectorTy _ n) = n"
| "getNumElements _ = 0"

definition ConstantArray_get :: "llvm_type \<Rightarrow> llvm_value list \<Rightarrow> error + llvm_value" where
  "ConstantArray_get ty elems =
     (if isArrayTy ty \<and> length elems = getNumElements ty
         \<and> list_all (\<lambda>c. getType c = getElementType ty) elems
      then Inr (ConstantArray ty elems)
      else Inl (LLVMInvalidOperand ''ConstantArray::get''))"

text \<open>
  The lambda \<open>buildArrayInit(type, dims, initVals, index)\<close> of the global branch, with
  its loop over the current dimension as \<open>buildSubInits\<close>: \<open>n\<close> iterations are left,
  \<open>subType\<close> is the element type of \<open>type\<close>. The reference parameter \<open>index\<close> is
  returned with the constant. \<open>elementType\<close> is the captured scalar type.
\<close>

function buildArrayInit ::
    "(ExprAST \<Rightarrow> llvm_value gen) \<Rightarrow> llvm_type \<Rightarrow> llvm_type \<Rightarrow> nat list \<Rightarrow> InitValAST list \<Rightarrow> nat
       \<Rightarrow> (llvm_value \<times> nat) gen"
  and buildSubInits ::
    "(ExprAST \<Rightarrow> llvm_value gen) \<Rightarrow> llvm_type \<Rightarrow> llvm_type \<Rightarrow> nat \<Rightarrow> nat list \<Rightarrow> InitValAST list \<Rightarrow> nat
       \<Rightarrow> (llvm_value list \<times> nat) gen" where
  "buildArrayInit gen elementType type [] initVals index st =
     (if index < length initVals then
        (case initVals ! index of
           ExprInitValAST e \<Rightarrow>
             (case gen e st of
                Inl err \<Rightarrow> Inl err
              | Inr (val, st1) \<Rightarrow>
                  if \<not> isConstant val then Inl GlobalInitializerMustBeConstant
                  else if getType val \<noteq> elementType then Inl TypeMismatchInGlobalInitializer
                  else Inr ((val, index + 1), st1))
         | ListInitValAST _ \<Rightarrow> Inr ((getNullValue elementType, index), st))
      else Inr ((getNullValue elementType, index), st))"
| "buildArrayInit gen elementType type (currentDimSize # subDims) initVals index st =
     (case buildSubInits gen elementType (getElementType type) currentDimSize subDims
             initVals index st of
        Inl err \<Rightarrow> Inl err
      | Inr ((subInits, index1), st1) \<Rightarrow>
          (case ConstantArray_get type subInits of
             Inl err \<Rightarrow> Inl err
           | Inr arr \<Rightarrow> Inr ((arr, index1), st1)))"
| "buildSubInits gen elementType subType 0 subDims initVals index st = Inr (([], index), st)"
| "buildSubInits gen elementType subType (Suc n) subDims initVals index st =
     (if index < length initVals then
        (case initVals ! index of
           ListInitValAST listVals \<Rightarrow>
             (case buildArrayInit gen elementType subType subDims listVals 0 st of
                Inl err \<Rightarrow> Inl err
              | Inr ((subInit, subIndex), st1) \<Rightarrow>
                  (case buildSubInits gen elementType subType n subDims initVals (index + 1) st1 of
                     Inl err \<Rightarrow> Inl err
                   | Inr ((rest, index2), st2) \<Rightarrow> Inr ((subInit # rest, index2), st2)))
         | ExprInitValAST _ \<Rightarrow>
             (case buildArrayInit gen elementType subType subDims initVals index st of
                Inl err \<Rightarrow> Inl err
              | Inr ((subInit, index1), st1) \<Rightarrow>
                  (case buildSubInits gen elementType subType n subDims initVals index1 st1 of
                     Inl err \<Rightarrow> Inl err
                   | Inr ((rest, index2), st2) \<Rightarrow> Inr ((subInit # rest, index2), st2))))
      else
        (case buildArrayInit gen elementType subType subDims [] 0 st of
           Inl err \<Rightarrow> Inl err
         | Inr ((subInit, dummyIndex), st1) \<Rightarrow>
             (case buildSubInits gen elementType subType n subDims initVals index st1 of
                Inl err \<Rightarrow> Inl err
              | Inr ((rest, index2), st2) \<Rightarrow> Inr ((subInit # rest, index2), st2))))"
  by pat_completeness auto
termination
  by (relation "measures
        [\<lambda>x. case x of Inl (g, et, t, dims, vs, i, s) \<Rightarrow> 2 * length dims
                      | Inr (g, et, t, n, dims, vs, i, s) \<Rightarrow> 2 * length dims + 1,
         \<lambda>x. case x of Inl (g, et, t, dims, vs, i, s) \<Rightarrow> 0
                      | Inr (g, et, t, n, dims, vs, i, s) \<Rightarrow> n]") auto

text \<open>
  The numeric conversion of a local initializer value, shared by the scalar, array and
  vector branches: \<open>CreateFPToSI\<close> into an integer cell, \<open>CreateSIToFP\<close> into a float
  cell, and the branch's own error otherwise.
\<close>

definition convertLocal :: "error \<Rightarrow> llvm_type \<Rightarrow> llvm_value \<Rightarrow> llvm_value gen" where
  "convertLocal mismatch varType v st =
     (if getType v \<noteq> varType then
        (if isIntegerTy varType \<and> isFloatTy (getType v)
         then Inr (CreateCast ''fptosi'' v varType st)
         else if isFloatTy varType \<and> isIntegerTy (getType v)
         then Inr (CreateCast ''sitofp'' v varType st)
         else Inl mismatch)
      else Inr (v, st))"

text \<open>
  The lambda \<open>initArrayElements(basePtr, type, dims, initVals, index)\<close> of the local
  branch and its loop, \<open>i\<close> counting up to \<open>currentDimSize\<close> with \<open>n\<close> iterations left.
  Only the reference parameter \<open>index\<close> is returned.
\<close>

function initArrayElements ::
    "(ExprAST \<Rightarrow> llvm_value gen) \<Rightarrow> llvm_type \<Rightarrow> llvm_value \<Rightarrow> llvm_type \<Rightarrow> nat list
       \<Rightarrow> InitValAST list \<Rightarrow> nat \<Rightarrow> nat gen"
  and initSubElements ::
    "(ExprAST \<Rightarrow> llvm_value gen) \<Rightarrow> llvm_type \<Rightarrow> llvm_value \<Rightarrow> llvm_type \<Rightarrow> nat \<Rightarrow> nat \<Rightarrow> nat list
       \<Rightarrow> InitValAST list \<Rightarrow> nat \<Rightarrow> nat gen" where
  "initArrayElements gen elementType basePtr type [] initVals index st =
     (if index < length initVals then
        (case initVals ! index of
           ExprInitValAST e \<Rightarrow>
             (case gen e st of
                Inl err \<Rightarrow> Inl err
              | Inr (val, st1) \<Rightarrow>
                  (case convertLocal TypeMismatchInArrayInitializer elementType val st1 of
                     Inl err \<Rightarrow> Inl err
                   | Inr (val', st2) \<Rightarrow> Inr (index + 1, CreateStore val' basePtr st2)))
         | ListInitValAST _ \<Rightarrow> Inr (index, st))
      else Inr (index, st))"
| "initArrayElements gen elementType basePtr type (currentDimSize # subDims) initVals index st =
     initSubElements gen elementType basePtr type 0 currentDimSize subDims initVals index st"
| "initSubElements gen elementType basePtr type i 0 subDims initVals index st = Inr (index, st)"
| "initSubElements gen elementType basePtr type i (Suc n) subDims initVals index st =
     (let (elementPtr, st0) =
            CreateGEP type basePtr
              [ConstantInt (IntegerTy 32) 0, ConstantInt (IntegerTy 32) (int i)] st
      in
      if index < length initVals then
        (case initVals ! index of
           ListInitValAST listVals \<Rightarrow>
             (case initArrayElements gen elementType elementPtr (getElementType type) subDims
                     listVals 0 st0 of
                Inl err \<Rightarrow> Inl err
              | Inr (subIndex, st1) \<Rightarrow>
                  initSubElements gen elementType basePtr type (i + 1) n subDims initVals
                    (index + 1) st1)
         | ExprInitValAST _ \<Rightarrow>
             (case initArrayElements gen elementType elementPtr (getElementType type) subDims
                     initVals index st0 of
                Inl err \<Rightarrow> Inl err
              | Inr (index1, st1) \<Rightarrow>
                  initSubElements gen elementType basePtr type (i + 1) n subDims initVals
                    index1 st1))
      else
        (case initArrayElements gen elementType elementPtr (getElementType type) subDims
                [] 0 st0 of
           Inl err \<Rightarrow> Inl err
         | Inr (dummyIndex, st1) \<Rightarrow>
             initSubElements gen elementType basePtr type (i + 1) n subDims initVals index st1))"
  by pat_completeness auto
termination
  by (relation "measures
        [\<lambda>x. case x of Inl (g, et, b, t, dims, vs, i, s) \<Rightarrow> 2 * length dims
                      | Inr (g, et, b, t, k, n, dims, vs, i, s) \<Rightarrow> 2 * length dims + 1,
         \<lambda>x. case x of Inl (g, et, b, t, dims, vs, i, s) \<Rightarrow> 0
                      | Inr (g, et, b, t, k, n, dims, vs, i, s) \<Rightarrow> n]") auto

text \<open>
  \<open>generateInitVal\<close>, branch by branch. Each branch returns the initialised pointer (a
  global variable now carries its initializer) and the state.
\<close>

text \<open>Vector target, list initializer, global variable: the elements of the constant vector.\<close>

fun vectorGlobalElements ::
  "(ExprAST \<Rightarrow> llvm_value gen) \<Rightarrow> llvm_type \<Rightarrow> InitValAST list \<Rightarrow> nat list
     \<Rightarrow> llvm_value list gen" where
  "vectorGlobalElements gen elemType initVals [] st = Inr ([], st)"
| "vectorGlobalElements gen elemType initVals (i # rest) st =
     (case
        (if i < length initVals then
           (case initVals ! i of
              ListInitValAST _ \<Rightarrow> Inl VectorInitializerElementsMustBeExpressions
            | ExprInitValAST e \<Rightarrow>
                (case gen e st of
                   Inl err \<Rightarrow> Inl err
                 | Inr (val, st1) \<Rightarrow>
                     if \<not> isConstant val then Inl GlobalVectorInitializerMustBeConstant
                     else if getType val \<noteq> elemType then
                       (if isIntegerTy elemType \<and> isFloatTy (getType val)
                        then Inr (ConstantExpr ''fptosi'' [val] elemType, st1)
                        else if isFloatTy elemType \<and> isIntegerTy (getType val)
                        then Inr (ConstantExpr ''sitofp'' [val] elemType, st1)
                        else Inl TypeMismatchInVectorInitializer)
                     else Inr (val, st1)))
         else Inr (getNullValue elemType, st))
      of
        Inl err \<Rightarrow> Inl err
      | Inr (elemConst, st1) \<Rightarrow>
          (case vectorGlobalElements gen elemType initVals rest st1 of
             Inl err \<Rightarrow> Inl err
           | Inr (elements, st2) \<Rightarrow> Inr (elemConst # elements, st2)))"

text \<open>Vector target, list initializer, local cell: the chain of \<open>insertelement\<close>s.\<close>

fun vectorLocalElements ::
  "(ExprAST \<Rightarrow> llvm_value gen) \<Rightarrow> llvm_type \<Rightarrow> InitValAST list \<Rightarrow> nat list \<Rightarrow> llvm_value
     \<Rightarrow> llvm_value gen" where
  "vectorLocalElements gen elemType initVals [] vecValue st = Inr (vecValue, st)"
| "vectorLocalElements gen elemType initVals (i # rest) vecValue st =
     (case
        (if i < length initVals then
           (case initVals ! i of
              ListInitValAST _ \<Rightarrow> Inl VectorInitializerElementsMustBeExpressions
            | ExprInitValAST e \<Rightarrow>
                (case gen e st of
                   Inl err \<Rightarrow> Inl err
                 | Inr (val, st1) \<Rightarrow> convertLocal TypeMismatchInVectorInitializer elemType val st1))
         else Inr (getNullValue elemType, st))
      of
        Inl err \<Rightarrow> Inl err
      | Inr (elemValue, st1) \<Rightarrow>
          (let (vecValue', st2) =
                 CreateInsertElement vecValue elemValue (ConstantInt (IntegerTy 32) (int i)) st1
           in vectorLocalElements gen elemType initVals rest vecValue' st2))"

definition generateVectorInit ::
  "(ExprAST \<Rightarrow> llvm_value gen) \<Rightarrow> InitValAST \<Rightarrow> llvm_value \<Rightarrow> llvm_type \<Rightarrow> llvm_value gen" where
  "generateVectorInit gen initVal ptr targetType st =
     (let elemType = getElementType targetType; vecSize = getNumElements targetType in
      case initVal of
        ExprInitValAST e \<Rightarrow>
          (case gen e st of
             Inl err \<Rightarrow> Inl err
           | Inr (val, st1) \<Rightarrow>
               if getType val \<noteq> targetType then Inl VectorInitializerMustBeVector
               else if isGlobalVariable ptr then
                 (if \<not> isConstant val then Inl GlobalVectorInitializerMustBeConstant
                  else Inr (setInitializer ptr val, st1))
               else Inr (ptr, CreateStore val ptr st1))
      | ListInitValAST initVals \<Rightarrow>
          if length initVals > vecSize then Inl VectorInitializerTooManyElements
          else if isGlobalVariable ptr then
            (case vectorGlobalElements gen elemType initVals [0..<vecSize] st of
               Inl err \<Rightarrow> Inl err
             | Inr (elements, st1) \<Rightarrow>
                 Inr (setInitializer ptr (ConstantVector targetType elements), st1))
          else
            (case vectorLocalElements gen elemType initVals [0..<vecSize]
                    (UndefValue targetType) st of
               Inl err \<Rightarrow> Inl err
             | Inr (vecValue, st1) \<Rightarrow> Inr (ptr, CreateStore vecValue ptr st1)))"

text \<open>
  A single expression into a cell that is not a vector (source lines 1529 to 1580): a
  global variable takes a constant of exactly its type as its initializer; a local
  cell takes the value, converted between \<open>int\<close> and \<open>float\<close> when the types differ,
  by a store.
\<close>

definition generateExprInit ::
  "(ExprAST \<Rightarrow> llvm_value gen) \<Rightarrow> ExprAST \<Rightarrow> llvm_value \<Rightarrow> llvm_value gen" where
  "generateExprInit gen e ptr st =
     (case gen e st of
        Inl err \<Rightarrow> Inl err
      | Inr (val, st1) \<Rightarrow>
          if isGlobalVariable ptr \<and> \<not> isConstant val then Inl GlobalInitializerMustBeConstant
          else
            (case pointerElementType ptr of
               Inl err \<Rightarrow> Inl err
             | Inr varType \<Rightarrow>
                 (case
                    (if getType val \<noteq> varType then
                       (if isGlobalVariable ptr then Inl TypeMismatchInGlobalInitializer
                        else convertLocal TypeMismatchInVariableInitializer varType val st1)
                     else Inr (val, st1))
                  of
                    Inl err \<Rightarrow> Inl err
                  | Inr (val', st2) \<Rightarrow>
                      if isGlobalVariable ptr then Inr (setInitializer ptr val', st2)
                      else Inr (ptr, CreateStore val' ptr st2))))"

text \<open>A list into a cell that is not a vector: the empty list, then the array branches.\<close>

definition generateListInit ::
  "(ExprAST \<Rightarrow> llvm_value gen) \<Rightarrow> InitValAST list \<Rightarrow> llvm_value \<Rightarrow> nat \<Rightarrow> nat list
     \<Rightarrow> llvm_value gen" where
  "generateListInit gen initVals ptr dimensions sizes st =
     (case pointerElementType ptr of
        Inl err \<Rightarrow> Inl err
      | Inr arrayType \<Rightarrow>
          if initVals = [] then
            (if isGlobalVariable ptr then
               (if dimensions > 0 then
                  (case ConstantArray_get arrayType
                          (replicate (prod_list (take dimensions sizes))
                             (getNullValue (stripArrayTy arrayType))) of
                     Inl err \<Rightarrow> Inl err
                   | Inr zeroArray \<Rightarrow> Inr (setInitializer ptr zeroArray, st))
                else Inr (setInitializer ptr (getNullValue arrayType), st))
             else Inr (ptr, CreateStore (getNullValue arrayType) ptr st))
          else if dimensions = 0 then Inl ScalarInitializerCannotBeList
          else if isGlobalVariable ptr then
            (case buildArrayInit gen (stripArrayTy arrayType) arrayType sizes initVals 0 st of
               Inl err \<Rightarrow> Inl err
             | Inr ((arrayInit, index), st1) \<Rightarrow> Inr (setInitializer ptr arrayInit, st1))
          else
            (case initArrayElements gen (stripArrayTy arrayType) ptr arrayType sizes initVals 0 st of
               Inl err \<Rightarrow> Inl err
             | Inr (index, st1) \<Rightarrow> Inr (ptr, st1)))"

definition generateInitVal ::
  "(ExprAST \<Rightarrow> llvm_value gen) \<Rightarrow> InitValAST \<Rightarrow> llvm_value \<Rightarrow> nat \<Rightarrow> nat list \<Rightarrow> llvm_value gen" where
  "generateInitVal gen initVal ptr dimensions sizes st =
     (case pointerElementType ptr of
        Inl err \<Rightarrow> Inl err
      | Inr targetType \<Rightarrow>
          if isVectorTy targetType then generateVectorInit gen initVal ptr targetType st
          else
            (case initVal of
               ExprInitValAST e \<Rightarrow> generateExprInit gen e ptr st
             | ListInitValAST initVals \<Rightarrow> generateListInit gen initVals ptr dimensions sizes st))"

subsection \<open>Constant declarations\<close>

text \<open>
  The \<open>ConstDeclAST\<close> branch of \<open>generateDecl\<close> (source lines 1339 to 1410). Whether the
  declaration stands at file level or inside a function body, the constant is created
  as a module-level \<open>GlobalVariable\<close> marked constant, and is entered into the
  innermost scope.
\<close>

fun constArraySizes :: "(ExprAST \<Rightarrow> llvm_value gen) \<Rightarrow> ExprAST list \<Rightarrow> nat list gen" where
  "constArraySizes gen [] st = Inr ([], st)"
| "constArraySizes gen (sizeExpr # rest) st =
     (case gen sizeExpr st of
        Inl err \<Rightarrow> Inl err
      | Inr (sizeValue, st1) \<Rightarrow>
          (case sizeValue of
             ConstantInt _ sz \<Rightarrow>
               if sz < 0 then Inl ArraySizeNonNegative
               else (case constArraySizes gen rest st1 of
                       Inl err \<Rightarrow> Inl err
                     | Inr (sizes, st2) \<Rightarrow> Inr (nat sz # sizes, st2))
           | _ \<Rightarrow> Inl ArraySizeConstantExpression))"

fun generateConstDef ::
  "(ExprAST \<Rightarrow> llvm_value gen) \<Rightarrow> llvm_type \<Rightarrow> ConstDefAST \<Rightarrow> gen_state \<Rightarrow> error + gen_state" where
  "generateConstDef gen constType (ConstDefAST constName sizeExprs initVal) st =
     (if isVectorTy constType \<and> sizeExprs \<noteq> [] then Inl VectorWithArrayDimensions
      else
        (case constArraySizes gen sizeExprs st of
           Inl err \<Rightarrow> Inl err
         | Inr (arraySizes, st1) \<Rightarrow>
             (let elementType = foldr (\<lambda>n t. ArrayTy t n) arraySizes constType in
              if lookupSymbol st1 constName \<noteq> None
              then Inl (RedeclarationOfGlobalConstant constName)
              else
                (case initVal of
                   None \<Rightarrow> Inl (ConstantMustHaveInitializer constName)
                 | Some iv \<Rightarrow>
                     (case generateInitVal gen iv (GlobalVariable constName elementType True None)
                             (length arraySizes) arraySizes st1 of
                        Inl err \<Rightarrow> Inl err
                      | Inr (globalConst, st2) \<Rightarrow>
                          addSymbol constName
                            (mkSymbolInfo globalConst True (arraySizes \<noteq> []) None) st2)))))"

fun generateConstDefs ::
  "(ExprAST \<Rightarrow> llvm_value gen) \<Rightarrow> llvm_type \<Rightarrow> ConstDefAST list \<Rightarrow> gen_state \<Rightarrow> error + gen_state" where
  "generateConstDefs gen constType [] st = Inr st"
| "generateConstDefs gen constType (d # ds) st =
     (case generateConstDef gen constType d st of
        Inl err \<Rightarrow> Inl err
      | Inr st1 \<Rightarrow> generateConstDefs gen constType ds st1)"

definition generateConstDecl ::
  "(ExprAST \<Rightarrow> llvm_value gen) \<Rightarrow> TypeAST \<Rightarrow> ConstDefAST list \<Rightarrow> gen_state \<Rightarrow> error + gen_state" where
  "generateConstDecl gen ty constDefs st =
     (case getTypeAST st ty of
        Inl err \<Rightarrow> Inl err
      | Inr constType \<Rightarrow> generateConstDefs gen constType constDefs st)"

text \<open>
  The two literal cases of \<open>generateExpr\<close> (source lines 286 to 304): an integer literal
  is an \<open>i32\<close> constant, a float literal a \<open>float\<close> constant, and nothing is appended.
  \<open>generateCondExpr\<close> has the same two cases (lines 568 to 584). The other cases are
  not part of this development; \<open>literalExpr\<close> answers \<open>NotInFragment\<close> for them and
  is applied to literals only.
\<close>

fun literalExpr :: "ExprAST \<Rightarrow> llvm_value gen" where
  "literalExpr (IntConstExprAST v ln) st = Inr (ConstantInt (IntegerTy 32) (sint v), st)"
| "literalExpr (FloatConstExprAST v ln) st = Inr (ConstantFP FloatTy v, st)"
| "literalExpr e st = Inl NotInFragment"


subsection \<open>Lvalues\<close>

text \<open>
  \<open>generateLVal\<close> (value mode) and \<open>generateLValAddress\<close> (address mode). Both call
  \<open>generateExpr\<close> on the index expressions, here the parameter \<open>gen\<close>.
\<close>

fun allocatedTypeOf :: "llvm_value \<Rightarrow> llvm_type option" where
  "allocatedTypeOf (AllocaInst _ ty) = Some ty"
| "allocatedTypeOf (GlobalVariable _ ty _ _) = Some ty"
| "allocatedTypeOf _ = None"

text \<open>The loop that counts the array dimensions of a type.\<close>

fun arrayDimensions :: "llvm_type \<Rightarrow> nat" where
  "arrayDimensions (ArrayTy t _) = Suc (arrayDimensions t)"
| "arrayDimensions t = 0"

fun generateIndices :: "(ExprAST \<Rightarrow> llvm_value gen) \<Rightarrow> ExprAST list \<Rightarrow> llvm_value list gen" where
  "generateIndices gen [] st = Inr ([], st)"
| "generateIndices gen (idx # rest) st =
     (case gen idx st of
        Inl err \<Rightarrow> Inl err
      | Inr (indexValue, st1) \<Rightarrow>
          (case generateIndices gen rest st1 of
             Inl err \<Rightarrow> Inl err
           | Inr (indices, st2) \<Rightarrow> Inr (indexValue # indices, st2)))"




text \<open>The vector index: generated, required to be an integer, cast to \<open>i32\<close>.\<close>

definition generateVectorIndex :: "(ExprAST \<Rightarrow> llvm_value gen) \<Rightarrow> ExprAST \<Rightarrow> llvm_value gen" where
  "generateVectorIndex gen idx st =
     (case gen idx st of
        Inl err \<Rightarrow> Inl err
      | Inr (indexValue, st1) \<Rightarrow>
          if \<not> isIntegerTy (getType indexValue) then Inl VectorIndexMustBeInteger
          else Inr (CreateCast ''intcast'' indexValue (IntegerTy 32) st1))"

text \<open>
  The array-parameter path shared by both modes: the base pointer is the preloaded
  pointer of the binding; with indices, a \<open>getelementptr\<close> over the saved element type
  without a leading zero. The result is the element pointer and the type to load.
\<close>

definition arrayParamElementPtr ::
  "(ExprAST \<Rightarrow> llvm_value gen) \<Rightarrow> llvm_value \<Rightarrow> llvm_type option \<Rightarrow> ExprAST list
     \<Rightarrow> (llvm_value \<times> llvm_type) gen" where
  "arrayParamElementPtr gen basePtr elemTy indices st =
     (case elemTy of
        None \<Rightarrow> Inl NullPointerDereference
      | Some baseType \<Rightarrow>
          if length indices > arrayDimensions baseType + 1
          then Inl ArrayIndexCountExceedsDimensions
          else
            (case generateIndices gen indices st of
               Inl err \<Rightarrow> Inl err
             | Inr (indexValues, st1) \<Rightarrow>
                 (let (elementPtr, st2) = CreateGEP baseType basePtr indexValues st1
                  in Inr ((elementPtr, stripArrayTy baseType), st2))))"

text \<open>The path of a true array: a leading zero index, then the user's indices.\<close>

definition arrayElementPtr ::
  "(ExprAST \<Rightarrow> llvm_value gen) \<Rightarrow> llvm_value \<Rightarrow> llvm_type \<Rightarrow> ExprAST list
     \<Rightarrow> (llvm_value \<times> llvm_type) gen" where
  "arrayElementPtr gen varPtr baseType indices st =
     (if length indices > arrayDimensions baseType
      then Inl ArrayIndexCountExceedsDimensions
      else
        (case generateIndices gen indices st of
           Inl err \<Rightarrow> Inl err
         | Inr (indexValues, st1) \<Rightarrow>
             (let (elementPtr, st2) =
                    CreateGEP baseType varPtr (ConstantInt (IntegerTy 32) 0 # indexValues) st1
              in Inr ((elementPtr, stripArrayTy baseType), st2))))"

definition isArrayParam :: "SymbolInfo \<Rightarrow> bool" where
  "isArrayParam info \<longleftrightarrow>
     isArray info \<and>
     (case allocatedTypeOf (symValue info) of None \<Rightarrow> False | Some t \<Rightarrow> isPointerTy t)"


definition generateLValAddress ::
  "(ExprAST \<Rightarrow> llvm_value gen) \<Rightarrow> string \<Rightarrow> ExprAST list \<Rightarrow> llvm_value gen" where
  "generateLValAddress gen varName indices st =
     (case lookupSymbol st varName of
        None \<Rightarrow> Inl (VariableNotDefined varName)
      | Some info \<Rightarrow>
          if isConst info then Inl (CannotAssignToConstant varName)
          else
            (let varPtr = symValue info; allocatedType = allocatedTypeOf varPtr in
             if isArrayParam info then
               (case loadedArrayPtr info of
                  None \<Rightarrow> Inl ArrayParameterNotPreloaded
                | Some basePtr \<Rightarrow>
                    if indices \<noteq> [] then
                      (case arrayParamElementPtr gen basePtr (arrayElementType info) indices st of
                         Inl err \<Rightarrow> Inl err
                       | Inr ((elementPtr, loadType), st1) \<Rightarrow> Inr (elementPtr, st1))
                    else Inr (basePtr, st))
             else if indices \<noteq> [] then
               (case allocatedType of
                  Some (VectorTy et n) \<Rightarrow>
                    if length indices \<noteq> 1 then Inl VectorIndexMustBeOneDimensional
                    else
                      (let (vecValue, st1) = CreateLoad (VectorTy et n) varPtr st in
                       case generateVectorIndex gen (hd indices) st1 of
                         Inl err \<Rightarrow> Inl err
                       | Inr (indexValue, st2) \<Rightarrow>
                           (let (elem, st3) = CreateExtractElement vecValue indexValue st2;
                                (tmp, st4) = CreateAlloca et st3
                            in Inr (tmp, CreateStore elem tmp st4)))
                | None \<Rightarrow> Inl UnableToDetermineVariableType
                | Some baseType \<Rightarrow>
                    (case arrayElementPtr gen varPtr baseType indices st of
                       Inl err \<Rightarrow> Inl err
                     | Inr ((elementPtr, loadType), st1) \<Rightarrow> Inr (elementPtr, st1)))
             else Inr (varPtr, st)))"

subsection \<open>Assignment\<close>

text \<open>
  The \<open>AssignStmtAST\<close> branch of \<open>generateStmt\<close> (source lines 861 to 923). An indexed
  vector variable is handled here, by load, \<open>insertelement\<close> and store of the whole
  vector; every other left-hand side goes through \<open>generateLValAddress\<close>.
\<close>

definition generateAssignStmt ::
  "(ExprAST \<Rightarrow> llvm_value gen) \<Rightarrow> string \<Rightarrow> ExprAST list \<Rightarrow> ExprAST \<Rightarrow> gen_state
     \<Rightarrow> error + gen_state" where
  "generateAssignStmt gen varName indices e st =
     (let symOpt = lookupSymbol st varName in
      if (case symOpt of None \<Rightarrow> False | Some info \<Rightarrow> isArray info \<and> indices = [])
      then Inl (CannotAssignToArrayName varName)
      else
        (case (case symOpt of
                 None \<Rightarrow> None
               | Some info \<Rightarrow>
                   (case allocatedTypeOf (symValue info) of
                      Some (VectorTy et n) \<Rightarrow>
                        if indices \<noteq> [] then Some (symValue info, et, n) else None
                    | _ \<Rightarrow> None))
         of
           Some (varPtr, et, n) \<Rightarrow>
             if length indices \<noteq> 1 then Inl VectorIndexMustBeOneDimensional
             else
               (let (vecValue, st1) = CreateLoad (VectorTy et n) varPtr st in
                case generateVectorIndex gen (hd indices) st1 of
                  Inl err \<Rightarrow> Inl err
                | Inr (indexValue, st2) \<Rightarrow>
                    (case gen e st2 of
                       Inl err \<Rightarrow> Inl err
                     | Inr (rval, st3) \<Rightarrow>
                         (case
                            (if getType rval \<noteq> et then
                               (if isFloatingPointTy et \<and> isIntegerTy (getType rval)
                                then Inr (CreateCast ''sitofp'' rval et st3)
                                else if isIntegerTy et \<and> isFloatingPointTy (getType rval)
                                then Inr (CreateCast ''fptosi'' rval et st3)
                                else Inl TypeMismatchInVectorElementAssignment)
                             else Inr (rval, st3))
                          of
                            Inl err \<Rightarrow> Inl err
                          | Inr (rval', st4) \<Rightarrow>
                              (let (newVec, st5) =
                                     CreateInsertElement vecValue rval' indexValue st4
                               in Inr (CreateStore newVec varPtr st5)))))
         | None \<Rightarrow>
             (case generateLValAddress gen varName indices st of
                Inl err \<Rightarrow> Inl err
              | Inr (lvalAddr, st1) \<Rightarrow>
                  (case gen e st1 of
                     Inl err \<Rightarrow> Inl err
                   | Inr (rval, st2) \<Rightarrow> Inr (CreateStore rval lvalAddr st2)))))"


subsection \<open>Function entry\<close>






subsection \<open>Conditions of \<open>if\<close> and \<open>while\<close>\<close>

text \<open>
  The \<open>IfStmtAST\<close> and \<open>WhileStmtAST\<close> branches of \<open>generateStmt\<close>. \<open>generateCondExpr\<close>
  and the recursive \<open>generateStmt\<close> are the parameters \<open>genCond\<close> and \<open>genStmt\<close>.
  Whatever type the condition value has, the code asks for the integer constant zero
  of that type and an integer comparison with it.
\<close>

definition conditionToBool :: "llvm_value \<Rightarrow> llvm_value gen" where
  "conditionToBool condValue st =
     (case ConstantInt_get (getType condValue) 0 of
        Inl err \<Rightarrow> Inl err
      | Inr zero \<Rightarrow> CreateICmpNE condValue zero st)"

text \<open>\<open>BasicBlock::Create(context, name, parent)\<close>; the parent may be null.\<close>

definition createBlock :: "string \<Rightarrow> nat option \<Rightarrow> gen_state \<Rightarrow> block \<times> gen_state" where
  "createBlock name parent st =
     (let b = (name, nextId st) in
      (b, st \<lparr> nextId := nextId st + 1,
               blockParent := (case parent of None \<Rightarrow> blockParent st
                               | Some f \<Rightarrow> (blockParent st)(b \<mapsto> f)) \<rparr>))"

definition insertIntoFunction :: "nat \<Rightarrow> block \<Rightarrow> gen_state \<Rightarrow> gen_state" where
  "insertIntoFunction f b st = st \<lparr> blockParent := (blockParent st)(b \<mapsto> f) \<rparr>"

definition SetInsertPoint :: "block \<Rightarrow> gen_state \<Rightarrow> gen_state" where
  "SetInsertPoint b st = st \<lparr> insertBlock := Some b \<rparr>"

fun isTerminator :: "instr \<Rightarrow> bool" where
  "isTerminator (Br _) = True"
| "isTerminator (CondBr _ _ _) = True"
| "isTerminator (Ret _) = True"
| "isTerminator _ = False"

text \<open>\<open>builder.GetInsertBlock()->getTerminator() != nullptr\<close>.\<close>

definition hasTerminator :: "gen_state \<Rightarrow> bool" where
  "hasTerminator st =
     (case filter (\<lambda>(b, i). b = insertBlock st) (code st) of
        [] \<Rightarrow> False
      | xs \<Rightarrow> isTerminator (snd (last xs)))"

definition closeWithBr :: "block \<Rightarrow> gen_state \<Rightarrow> gen_state" where
  "closeWithBr target st = (if \<not> hasTerminator st then emit (Br target) st else st)"

definition generateIfStmt ::
  "(ExprAST \<Rightarrow> llvm_value gen) \<Rightarrow> (StmtAST \<Rightarrow> gen_state \<Rightarrow> error + gen_state)
     \<Rightarrow> ExprAST \<Rightarrow> StmtAST \<Rightarrow> StmtAST option \<Rightarrow> gen_state \<Rightarrow> error + gen_state" where
  "generateIfStmt genCond genStmt cond thenStmt elseStmt st =
     (case genCond cond st of
        Inl err \<Rightarrow> Inl err
      | Inr (condValue, st1) \<Rightarrow>
          (case conditionToBool condValue st1 of
             Inl err \<Rightarrow> Inl err
           | Inr (boolValue, st2) \<Rightarrow>
               (case (case insertBlock st2 of None \<Rightarrow> None | Some b \<Rightarrow> blockParent st2 b) of
                  None \<Rightarrow> Inl NullPointerDereference
                | Some theFunction \<Rightarrow>
                    (let (thenBB, st3) = createBlock ''then'' (Some theFunction) st2;
                         (endBB, st4) = createBlock ''endif'' None st3
                     in case elseStmt of
                          None \<Rightarrow>
                            (let st5 = SetInsertPoint thenBB (emit (CondBr boolValue thenBB endBB) st4)
                             in case genStmt thenStmt st5 of
                                  Inl err \<Rightarrow> Inl err
                                | Inr st6 \<Rightarrow>
                                    Inr (SetInsertPoint endBB
                                          (insertIntoFunction theFunction endBB
                                            (closeWithBr endBB st6))))
                        | Some els \<Rightarrow>
                            (let (elseBB, st5) = createBlock ''else'' None st4;
                                 st6 = SetInsertPoint thenBB
                                         (emit (CondBr boolValue thenBB elseBB) st5)
                             in case genStmt thenStmt st6 of
                                  Inl err \<Rightarrow> Inl err
                                | Inr st7 \<Rightarrow>
                                    (case genStmt els
                                            (SetInsertPoint elseBB
                                              (insertIntoFunction theFunction elseBB
                                                (closeWithBr endBB st7))) of
                                       Inl err \<Rightarrow> Inl err
                                     | Inr st8 \<Rightarrow>
                                         Inr (SetInsertPoint endBB
                                               (insertIntoFunction theFunction endBB
                                                 (closeWithBr endBB st8)))))))))"

definition generateWhileStmt ::
  "(ExprAST \<Rightarrow> llvm_value gen) \<Rightarrow> (StmtAST \<Rightarrow> gen_state \<Rightarrow> error + gen_state)
     \<Rightarrow> ExprAST \<Rightarrow> StmtAST \<Rightarrow> gen_state \<Rightarrow> error + gen_state" where
  "generateWhileStmt genCond genStmt cond body st =
     (case (case insertBlock st of None \<Rightarrow> None | Some b \<Rightarrow> blockParent st b) of
        None \<Rightarrow> Inl NullPointerDereference
      | Some theFunction \<Rightarrow>
          (let (condBB, st1) = createBlock ''whilecond'' (Some theFunction) st;
               (loopBB, st2) = createBlock ''whileloop'' None st1;
               (afterBB, st3) = createBlock ''whileafter'' None st2;
               st4 = st3 \<lparr> breakTargets := afterBB # breakTargets st3,
                           continueTargets := condBB # continueTargets st3 \<rparr>;
               st5 = SetInsertPoint condBB (emit (Br condBB) st4)
           in case genCond cond st5 of
                Inl err \<Rightarrow> Inl err
              | Inr (condValue, st6) \<Rightarrow>
                  (case conditionToBool condValue st6 of
                     Inl err \<Rightarrow> Inl err
                   | Inr (boolValue, st7) \<Rightarrow>
                       (case genStmt body
                               (SetInsertPoint loopBB
                                 (insertIntoFunction theFunction loopBB
                                   (emit (CondBr boolValue loopBB afterBB) st7))) of
                          Inl err \<Rightarrow> Inl err
                        | Inr st8 \<Rightarrow>
                            (let st9 = SetInsertPoint afterBB
                                         (insertIntoFunction theFunction afterBB
                                           (closeWithBr condBB st8))
                             in Inr (st9 \<lparr> breakTargets := tl (breakTargets st9),
                                           continueTargets := tl (continueTargets st9) \<rparr>))))))"

subsection \<open>The effect of a store at run time\<close>



section \<open>Observations on what the generator builds\<close>


text \<open>
  The array type the declaration builds from its dimensions, inside out: for
  \<open>int a[3][2]\<close> the type \<open>[3 x [2 x i32]]\<close>.
\<close>

definition arrayTypeOf :: "nat list \<Rightarrow> llvm_type \<Rightarrow> llvm_type" where
  "arrayTypeOf dims elementType = foldr (\<lambda>n t. ArrayTy t n) dims elementType"












section \<open>Reference semantics of the integer operators\<close>







section \<open>Concrete inputs\<close>

text \<open>
  Closed instances need some floating-point unit. \<open>idle_fpu\<close> is used only for trees
  whose folding never calls an arithmetic operation or a comparison of the unit: each
  entry returns a zero or \<open>False\<close>, and no theorem below depends on what it returns.
\<close>

definition idle_fpu :: fpu where
  "idle_fpu = \<lparr> fp_add = (\<lambda>a b. 0), fp_sub = (\<lambda>a b. 0), fp_mul = (\<lambda>a b. 0),
                fp_div = (\<lambda>a b. 0), fp_neg = (\<lambda>a. 0),
                fp_lt = (\<lambda>a b. False), fp_le = (\<lambda>a b. False), fp_eq = (\<lambda>a b. False) \<rparr>"

text \<open>\<open>int main() { return 0; }\<close>, with the literal on line 1.\<close>

definition prog_return0 :: CompUnitAST where
  "prog_return0 =
     CompUnitAST []
       [FunctionAST (TypeAST Kind_INT Kind_INT None) ''main'' []
          [StmtBlockItemAST (ReturnStmtAST (Some (IntConstExprAST 0 1)))]]"

text \<open>The expression \<open>5.0 % 2.0\<close> on line 1: the bit patterns of \<open>5.0f\<close> and \<open>2.0f\<close>.\<close>

definition expr_fmod :: ExprAST where
  "expr_fmod =
     BinaryExprAST MOD (FloatConstExprAST 0x40A00000 1) (FloatConstExprAST 0x40000000 1) 1"

text \<open>The type \<open>int\<close>, and the \<open>i32\<close> and pointer types used below.\<close>

definition int_type :: TypeAST where
  "int_type = TypeAST Kind_INT Kind_INT None"



text \<open>
  The generator inside the body block of a function without parameters: the scopes
  of the block, of the function and of the file, all empty, and the entry block.
\<close>

definition local_state :: gen_state where
  "local_state =
     \<lparr> symbolTableStack = [Map.empty, Map.empty, Map.empty],
       insertBlock = Some (''entry'', 1), code = [], nextId = 2,
       currentFunction = Some 0, blockParent = [(''entry'', 1) \<mapsto> 0],
       breakTargets = [], continueTargets = [] \<rparr>"

text \<open>\<open>const int N = 3;\<close>\<close>

definition def_N :: ConstDefAST where
  "def_N = ConstDefAST ''N'' [] (Some (ExprInitValAST (IntConstExprAST 3 1)))"

text \<open>
  A generator state for the compile-time evaluator: a local variable \<open>x\<close> in the
  function scope, and at file level the variable \<open>g\<close> and the constant
  \<open>const float f = 1.5\<close>.
\<close>

definition const_eval_state :: gen_state where
  "const_eval_state =
     \<lparr> symbolTableStack =
         [ [''x'' \<mapsto> mkSymbolInfo (AllocaInst 2 (IntegerTy 32)) False False None],
           [''g'' \<mapsto> mkSymbolInfo
                        (GlobalVariable ''g'' (IntegerTy 32) False
                           (Some (ConstantInt (IntegerTy 32) 5))) False False None,
            ''f'' \<mapsto> mkSymbolInfo
                        (GlobalVariable ''f'' FloatTy True
                           (Some (ConstantFP FloatTy 0x3FC00000))) True False None] ],
       insertBlock = Some (''entry'', 1), code = [(Some (''entry'', 1), Alloca 2 (IntegerTy 32))],
       nextId = 3, currentFunction = Some 0, blockParent = [(''entry'', 1) \<mapsto> 0],
       breakTargets = [], continueTargets = [] \<rparr>"












section \<open>Properties of the constant folder\<close>








lemma replaceExpr_eq: "replaceExpr F e = (True, foldAndReplaceExpr F e)"
  by (simp add: replaceExpr_def ptr_ne_def)

text \<open>
  Claim C4, at the failing input \<open>int main() { return 0; }\<close>. The pass leaves the tree
  as it was and still reports a change: the literal is cloned, and the clone's address
  differs from the address of the node it replaces.
\<close>

theorem fold_reports_change_without_change:
  "foldCompUnit idle_fpu prog_return0 = (True, prog_return0)"
  by (simp add: prog_return0_def foldBlock_def replaceExpr_eq)

text \<open>
  Claim C5 as stated fails: the folder replaces \<open>5.0 % 2.0\<close> by a literal.
\<close>

theorem float_mod_unfolded_counterexample:
  "foldAndReplaceExpr idle_fpu expr_fmod \<noteq> expr_fmod"
  by (simp add: expr_fmod_def)

text \<open>
  Claim C5, amended. A remainder expression over two float literals is folded to the
  float literal \<open>0.0\<close> on the line of the expression, whatever the operands are.
\<close>

theorem float_mod_folds_to_zero:
  "foldAndReplaceExpr F (BinaryExprAST MOD (FloatConstExprAST a la) (FloatConstExprAST b lb) ln)
     = FloatConstExprAST f32_zero ln"
  by simp















section \<open>Properties of the compile-time evaluator\<close>

text \<open>
  Claim C7 as stated fails for a local name that is a constant: after
  \<open>const int N = 3;\<close> inside a function body, \<open>N\<close> is bound in the innermost scope
  and not at file level, and the evaluator returns 3 for it.
\<close>

theorem const_eval_local_constant_counterexample:
  "(case generateConstDecl literalExpr int_type [def_N] local_state of
      Inl e \<Rightarrow> False
    | Inr st \<Rightarrow> hd (symbolTableStack st) ''N'' \<noteq> None
              \<and> last (symbolTableStack st) ''N'' = None
              \<and> evaluateConstExpr st (LValExprAST ''N'' [] 2) = Inr 3)"
  by (simp add: generateConstDecl_def int_type_def def_N_def local_state_def lookupSymbol_def
      generateInitVal_def generateExprInit_def addSymbol_def mkSymbolInfo_def)

text \<open>
  Claim C7, amended. The evaluator reports an error for a division or a remainder
  whose right operand evaluates to zero (the error of the left operand if that fails
  first), for a name that is not defined, for a name bound to anything but a global
  variable (a local variable or a parameter, which are stack cells), for a global
  variable that is not constant, and for a constant whose initializer is not an
  integer constant. Constants are global variables wherever they are declared, so a
  constant of a function body is not among the rejected names.
\<close>

theorem const_eval_errors:
  "(evaluateConstExpr st r = Inr 0 \<longrightarrow>
      evaluateConstExpr st (BinaryExprAST DIV l r ln) =
        (case evaluateConstExpr st l of Inl e \<Rightarrow> Inl e | Inr a \<Rightarrow> Inl DivisionByZeroInConstExpr)
    \<and> evaluateConstExpr st (BinaryExprAST MOD l r ln) =
        (case evaluateConstExpr st l of Inl e \<Rightarrow> Inl e | Inr a \<Rightarrow> Inl ModuloByZeroInConstExpr))
  \<and> (lookupSymbol st n1 = None \<longrightarrow>
      evaluateConstExpr st (LValExprAST n1 idx1 ln1) = Inl (VariableNotDefined n1))
  \<and> (lookupSymbol st n2 = Some i2 \<and> \<not> isGlobalVariable (symValue i2) \<longrightarrow>
      evaluateConstExpr st (LValExprAST n2 idx2 ln2) = Inl ArraySizeMustBeConstant)
  \<and> (lookupSymbol st n3 = Some i3 \<and> symValue i3 = GlobalVariable g3 ty3 False init3 \<longrightarrow>
      evaluateConstExpr st (LValExprAST n3 idx3 ln3) = Inl ArraySizeMustBeConstant)
  \<and> (lookupSymbol st n4 = Some i4 \<and> symValue i4 = GlobalVariable g4 ty4 True init4
        \<and> (\<forall>ity v. init4 \<noteq> Some (ConstantInt ity v)) \<longrightarrow>
      evaluateConstExpr st (LValExprAST n4 idx4 ln4)
        = Inl (if init4 = None then ArraySizeConstantWithValue else ArraySizeIntegerConstant))"
  by (auto split: sum.splits option.splits llvm_value.splits)

theorem const_eval_errors_witness:
  "evaluateConstExpr const_eval_state (IntConstExprAST 0 1) = Inr 0
   \<and> evaluateConstExpr const_eval_state
        (BinaryExprAST DIV (IntConstExprAST 6 1) (IntConstExprAST 0 1) 1)
       = Inl DivisionByZeroInConstExpr
   \<and> evaluateConstExpr const_eval_state
        (BinaryExprAST MOD (IntConstExprAST 6 1) (IntConstExprAST 0 1) 1)
       = Inl ModuloByZeroInConstExpr
   \<and> lookupSymbol const_eval_state ''u'' = None
   \<and> evaluateConstExpr const_eval_state (LValExprAST ''u'' [] 1) = Inl (VariableNotDefined ''u'')
   \<and> evaluateConstExpr const_eval_state (LValExprAST ''x'' [] 1) = Inl ArraySizeMustBeConstant
   \<and> evaluateConstExpr const_eval_state (LValExprAST ''g'' [] 1) = Inl ArraySizeMustBeConstant
   \<and> evaluateConstExpr const_eval_state (LValExprAST ''f'' [] 1) = Inl ArraySizeIntegerConstant"
proof -
  have x: "lookupSymbol const_eval_state ''x''
             = Some (mkSymbolInfo (AllocaInst 2 (IntegerTy 32)) False False None)"
    by (simp add: const_eval_state_def lookupSymbol_def)
  have g: "lookupSymbol const_eval_state ''g''
             = Some (mkSymbolInfo (GlobalVariable ''g'' (IntegerTy 32) False
                                     (Some (ConstantInt (IntegerTy 32) 5))) False False None)"
    by (simp add: const_eval_state_def lookupSymbol_def)
  have f: "lookupSymbol const_eval_state ''f''
             = Some (mkSymbolInfo (GlobalVariable ''f'' FloatTy True
                                     (Some (ConstantFP FloatTy 0x3FC00000))) True False None)"
    by (simp add: const_eval_state_def lookupSymbol_def)
  have u: "lookupSymbol const_eval_state ''u'' = None"
    by (simp add: const_eval_state_def lookupSymbol_def)
  have z: "evaluateConstExpr const_eval_state (IntConstExprAST 0 1) = Inr 0" by simp
  show ?thesis
    using const_eval_errors
            [of const_eval_state "IntConstExprAST 0 1" "IntConstExprAST 6 1" 1
                "''u''" "[]" 1
                "''x''" "mkSymbolInfo (AllocaInst 2 (IntegerTy 32)) False False None" "[]" 1
                "''g''" "mkSymbolInfo (GlobalVariable ''g'' (IntegerTy 32) False
                                        (Some (ConstantInt (IntegerTy 32) 5))) False False None"
                "''g''" "IntegerTy 32" "Some (ConstantInt (IntegerTy 32) 5)" "[]" 1
                "''f''" "mkSymbolInfo (GlobalVariable ''f'' FloatTy True
                                        (Some (ConstantFP FloatTy 0x3FC00000))) True False None"
                "''f''" FloatTy "Some (ConstantFP FloatTy 0x3FC00000)" "[]" 1]
          x g f u z
    by (simp add: mkSymbolInfo_def)
qed


section \<open>Properties of initializers\<close>

lemma getType_null [simp]: "getType (getNullValue t) = t"
  by (cases t) simp_all

lemma arrayTypeOf_simps [simp]:
  "arrayTypeOf [] t = t"
  "arrayTypeOf (d # ds) t = ArrayTy (arrayTypeOf ds t) d"
  by (simp_all add: arrayTypeOf_def)


















lemma global_scalar_not_constant:
  assumes "gen e st = Inr (val, st1)" "\<not> isVectorTy varType" "\<not> isConstant val"
  shows "generateInitVal gen (ExprInitValAST e) (GlobalVariable name varType isC init) dims sizes st
           = Inl GlobalInitializerMustBeConstant"
  using assms by (simp add: generateInitVal_def generateExprInit_def)





section \<open>Properties of the lowering of conditions\<close>

lemma condition_float_rejected:
  "getType condValue = FloatTy \<Longrightarrow>
   conditionToBool condValue st = Inl (LLVMInvalidOperand ''ConstantInt::get'')"
  by (simp add: conditionToBool_def ConstantInt_get_def)

lemma condition_int_compared:
  "getType condValue = IntegerTy w \<Longrightarrow> \<not> isConstant condValue \<Longrightarrow>
   conditionToBool condValue st
     = Inr (Instruction (nextId st) (IntegerTy 1),
            emit (ICmpNE (nextId st) condValue (ConstantInt (IntegerTy w) 0)) st)"
  by (cases condValue) (simp_all add: conditionToBool_def ConstantInt_get_def CreateICmpNE_def)

lemma if_float_condition_fails:
  "genCond cond st = Inr (condValue, st1) \<Longrightarrow> getType condValue = FloatTy \<Longrightarrow>
   generateIfStmt genCond genStmt cond thenStmt elseStmt st
     = Inl (LLVMInvalidOperand ''ConstantInt::get'')"
  by (simp add: generateIfStmt_def condition_float_rejected)

lemma if_int_condition_branches:
  assumes "genCond cond st = Inr (condValue, st1)" "getType condValue = IntegerTy w"
    "\<not> isConstant condValue" "insertBlock st1 = Some b" "blockParent st1 b = Some f"
  shows "generateIfStmt genCond genStmt cond thenStmt None st =
     (let st2 = emit (ICmpNE (nextId st1) condValue (ConstantInt (IntegerTy w) 0)) st1;
          (thenBB, st3) = createBlock ''then'' (Some f) st2;
          (endBB, st4) = createBlock ''endif'' None st3
      in case genStmt thenStmt
                (SetInsertPoint thenBB
                   (emit (CondBr (Instruction (nextId st1) (IntegerTy 1)) thenBB endBB) st4)) of
           Inl err \<Rightarrow> Inl err
         | Inr st6 \<Rightarrow>
             Inr (SetInsertPoint endBB (insertIntoFunction f endBB (closeWithBr endBB st6))))"
  using assms
  by (simp add: generateIfStmt_def condition_int_compared emit_def)

text \<open>
  Claim C3, at the failing input \<open>if (1.5) ...\<close> and \<open>while (1.5) ...\<close>. The condition
  is generated as a \<open>float\<close> constant; the code then asks LLVM for the integer constant
  zero of type \<open>float\<close> to compare with, which LLVM rejects: no comparison and no
  conditional branch is built.
\<close>

theorem float_condition_not_lowered:
  "generateIfStmt literalExpr genStmt (FloatConstExprAST 0x3FC00000 1) thenStmt elseStmt st
     = Inl (LLVMInvalidOperand ''ConstantInt::get'')
   \<and> generateWhileStmt literalExpr genStmt (FloatConstExprAST 0x3FC00000 1) body local_state
     = Inl (LLVMInvalidOperand ''ConstantInt::get'')"
  by (simp add: generateIfStmt_def generateWhileStmt_def condition_float_rejected
        local_state_def createBlock_def emit_def SetInsertPoint_def)


section \<open>Properties of the function entry and of array parameters\<close>






















section \<open>Properties of the lowering of vector elements\<close>




text \<open>
  The direct assignment \<open>v[i] = e\<close>, by contrast, stores a new vector into the cell
  of the variable.
\<close>

lemma vector_element_assignment:
  assumes "lookupSymbol st v = Some info"
    "allocatedTypeOf (symValue info) = Some (VectorTy et n)"
    "gen idx (emit (Load (nextId st) (VectorTy et n) (symValue info)) st) = Inr (iv, st2)"
    "isIntegerTy (getType iv)"
    "gen e (snd (CreateCast ''intcast'' iv (IntegerTy 32) st2)) = Inr (rval, st3)"
    "getType rval = et" "\<not> isArray info"
  shows "generateAssignStmt gen v [idx] e st =
     (let (newVec, st5) = CreateInsertElement (LoadInst (nextId st) (VectorTy et n)) rval
                            (fst (CreateCast ''intcast'' iv (IntegerTy 32) st2)) st3
      in Inr (emit (Store newVec (symValue info)) st5))"
  using assms
  by (simp add: generateAssignStmt_def generateVectorIndex_def CreateLoad_def
        CreateStore_def split_beta Let_def)



end
